theory Spec2Isabelle
  imports Complex_Main
begin

section \<open>Basketball Stats Tracker: the backend of \<open>backend/main.py\<close>\<close>

text \<open>
  The backend loads a box-score table once (\<open>_load_data\<close>), and answers three read-only
  queries over it: \<open>list_games\<close>, \<open>game_players\<close> and \<open>game_charts\<close>, using the two metric
  functions \<open>_calculate_true_shooting\<close> and \<open>_calculate_efficiency\<close>.

  Conventions of the embedding.
  \<^item> A pandas DataFrame is the list of its rows, in the order of the file; a row is a record
    with one field per column of the header.
  \<^item> The arithmetic of Python (\<open>+\<close>, \<open>-\<close>, \<open>*\<close>, \<open>/\<close>, \<open>>\<close>, \<open>int\<close>, \<open>float\<close>, \<open>round\<close>) is an
    argument \<open>py\<close> of the functions that compute: on floats every operation rounds its
    result to a double, and the functions are modelled for whatever these operations
    return. The arithmetic without rounding, \<open>exact\<close>, is the one in which the formulas are
    read as formulas.
  \<^item> The kind of the \<open>gameId\<close> column, integers or text, is an argument \<open>dt\<close>: it gives the
    string form of a cell, which cells are missing, and the order of the keys.
  \<^item> An exception is a value of type \<open>error\<close>, returned as \<open>Inl\<close>.
  \<^item> The module-level \<open>DATAFRAME\<close> is an explicit argument of every query.
\<close>

subsection \<open>Data model\<close>

text \<open>
  One row of the table. The \<open>gameId\<close> column has type \<open>'k\<close>, the numeric stat columns type
  \<open>'n\<close> and the two identifier columns type \<open>'i\<close>: cells as read in the raw table, numbers
  and \<open>int\<close> once loaded. The numbers of a loaded table are finite.
  \<open>position\<close> is \<open>None\<close> when the file has no such column (\<open>row.get("position", "")\<close>).
\<close>

record ('k, 'n, 'i) player_game_row =
  gameId :: 'k
  game_date :: string
  teamId :: 'i
  teamName :: string
  teamTricode :: string
  personId :: 'i
  personName :: string
  position :: "string option"
  minutes :: string
  fieldGoalsMade :: 'n
  fieldGoalsAttempted :: 'n
  threePointersMade :: 'n
  threePointersAttempted :: 'n
  freeThrowsMade :: 'n
  freeThrowsAttempted :: 'n
  reboundsOffensive :: 'n
  reboundsDefensive :: 'n
  reboundsTotal :: 'n
  assists :: 'n
  steals :: 'n
  blocks :: 'n
  turnovers :: 'n
  foulsPersonal :: 'n
  points :: 'n
  plusMinusPoints :: 'n

type_synonym ('k, 'n) row = "('k, 'n, int) player_game_row"

text \<open>The response schemas \<open>PlayerStats\<close>, \<open>GameInfo\<close> and \<open>ChartData\<close>.\<close>

record 'n player_stats =
  ps_gameId :: string
  ps_teamId :: int
  ps_teamName :: string
  ps_teamTricode :: string
  ps_personId :: int
  ps_personName :: string
  ps_position :: string
  ps_minutes :: string
  ps_points :: int
  ps_rebounds :: int
  ps_assists :: int
  ps_steals :: int
  ps_blocks :: int
  ps_turnovers :: int
  ps_true_shooting :: 'n
  ps_efficiency :: 'n
  ps_plusMinus :: int

record game_info =
  gi_gameId :: string
  gi_game_date :: string
  gi_teams :: "string list"

text \<open>\<open>datasets\<close> is a Python dict: an association list in insertion order.\<close>

record 'n chart_data =
  labels :: "string list"
  datasets :: "(string \<times> 'n list) list"

datatype error = HTTPException nat string | IndexError | IntCastingNaNError

definition not_found :: error where
  "not_found = HTTPException 404 ''Game not found''"

subsection \<open>Python's arithmetic\<close>

text \<open>
  The operations of Python on its numbers, of type \<open>'n\<close>: the value of an integer literal
  and of a float literal, \<open>+\<close>, \<open>-\<close>, \<open>*\<close>, \<open>/\<close>, \<open>>\<close>, \<open>int(x)\<close>, \<open>float(x)\<close> and
  \<open>round(x, ndigits)\<close>.
\<close>

record 'n arith =
  int_lit :: "int \<Rightarrow> 'n"
  float_lit :: "rat \<Rightarrow> 'n"
  add_op :: "'n \<Rightarrow> 'n \<Rightarrow> 'n"
  sub_op :: "'n \<Rightarrow> 'n \<Rightarrow> 'n"
  mul_op :: "'n \<Rightarrow> 'n \<Rightarrow> 'n"
  div_op :: "'n \<Rightarrow> 'n \<Rightarrow> 'n"
  gt_op :: "'n \<Rightarrow> 'n \<Rightarrow> bool"
  int_op :: "'n \<Rightarrow> int"
  float_op :: "'n \<Rightarrow> 'n"
  round_op :: "'n \<Rightarrow> nat \<Rightarrow> 'n"

text \<open>
  The arithmetic without rounding, on the rationals: \<open>int\<close> truncates towards zero, and
  \<open>round\<close> goes to the nearest multiple of \<open>10 ^ -ndigits\<close>, ties to even. On integers
  this is Python's own arithmetic; on floats Python's differs from it by the rounding of
  each result. For 33 points on 11 field-goal and 15 free-throw attempts the quotient is
  \<open>15/16\<close>, which rounds to \<open>0.938\<close>, where Python computes \<open>0.9374999999999999\<close>, which
  rounds to \<open>0.937\<close>: what holds of the values of Python is stated for every \<open>py\<close>, and
  \<open>exact\<close> is used for the formulas and for the sample values only.
\<close>

definition py_int :: "rat \<Rightarrow> int" where
  "py_int x = (if 0 \<le> x then \<lfloor>x\<rfloor> else \<lceil>x\<rceil>)"

definition round_half_even :: "rat \<Rightarrow> int" where
  "round_half_even y =
     (let f = \<lfloor>y\<rfloor>; d = y - of_int f
      in if d < 1 / 2 then f else if 1 / 2 < d then f + 1 else if even f then f else f + 1)"

definition round_exact :: "rat \<Rightarrow> nat \<Rightarrow> rat" where
  "round_exact x ndigits = of_int (round_half_even (x * 10 ^ ndigits)) / 10 ^ ndigits"

definition exact :: "rat arith" where
  "exact =
     \<lparr>int_lit = of_int, float_lit = (\<lambda>x. x),
      add_op = (\<lambda>a b. a + b), sub_op = (\<lambda>a b. a - b), mul_op = (\<lambda>a b. a * b),
      div_op = (\<lambda>a b. a / b), gt_op = (\<lambda>a b. a > b),
      int_op = py_int, float_op = (\<lambda>x. x), round_op = round_exact\<rparr>"

subsection \<open>Python and pandas primitives\<close>

text \<open>\<open>str\<close> on an integer: the decimal digits, with a leading minus sign.\<close>

definition digit_char :: "nat \<Rightarrow> char" where
  "digit_char d = char_of (48 + d)"

function str_nat :: "nat \<Rightarrow> string" where
  "str_nat n = (if n < 10 then [digit_char n] else str_nat (n div 10) @ [digit_char (n mod 10)])"
  by pat_completeness auto
termination
  by (relation "measure id") auto

declare str_nat.simps [simp del]

definition str_int :: "int \<Rightarrow> string" where
  "str_int i = (if i < 0 then CHR ''-'' # str_nat (nat (- i)) else str_nat (nat i))"

text \<open>\<open>str\<close> on a cell of a text column: the text, and \<open>nan\<close> for a missing cell.\<close>

fun str_object :: "string option \<Rightarrow> string" where
  "str_object (Some s) = s"
| "str_object None = ''nan''"

text \<open>The order of texts: by code points.\<close>

fun str_le :: "string \<Rightarrow> string \<Rightarrow> bool" where
  "str_le [] t = True"
| "str_le (a # s) [] = False"
| "str_le (a # s) (b # t) =
     ((of_char a :: nat) < of_char b \<or> ((of_char a :: nat) = of_char b \<and> str_le s t))"

text \<open>A missing cell is a NaN, and no comparison with it holds.\<close>

fun object_le :: "string option \<Rightarrow> string option \<Rightarrow> bool" where
  "object_le (Some s) (Some t) = str_le s t"
| "object_le a b = False"

text \<open>
  What the queries need of the kind of the \<open>gameId\<close> column: \<open>str(row["gameId"])\<close> and
  \<open>DATAFRAME["gameId"].astype(str)\<close>, cell by cell; which cells are missing; the order in
  which \<open>groupby\<close> sorts the keys. \<open>read_csv\<close> gives a column one kind, from all
  its cells. The two kinds of an identifier column are defined: integers (\<open>int64\<close>, when
  every cell is an integer, so that no cell is missing) and text (\<open>object\<close>, a missing
  cell being a NaN). What does not depend on the kind is stated for every \<open>dt\<close>.
\<close>

record 'k dtype =
  astype_str :: "'k \<Rightarrow> string"
  isna :: "'k \<Rightarrow> bool"
  key_le :: "'k \<Rightarrow> 'k \<Rightarrow> bool"

definition int64 :: "int dtype" where
  "int64 = \<lparr>astype_str = str_int, isna = (\<lambda>k. False), key_le = (\<lambda>a b. a \<le> b)\<rparr>"

definition object :: "string option dtype" where
  "object = \<lparr>astype_str = str_object, isna = (\<lambda>k. k = None), key_le = object_le\<rparr>"

text \<open>\<open>xs[i]\<close> for \<open>i \<ge> 0\<close>, and \<open>.iloc[0]\<close>: IndexError out of range.\<close>

definition item :: "'a list \<Rightarrow> nat \<Rightarrow> error + 'a" where
  "item xs i = (if i < length xs then Inr (xs ! i) else Inl IndexError)"

text \<open>\<open>drop_duplicates\<close> keeps the first occurrence of each value, in order.\<close>

primrec unique_from :: "'a list \<Rightarrow> 'a list \<Rightarrow> 'a list" where
  "unique_from seen [] = []"
| "unique_from seen (x # xs) =
     (if x \<in> set seen then unique_from seen xs else x # unique_from (seen @ [x]) xs)"

definition drop_duplicates :: "'a list \<Rightarrow> 'a list" where
  "drop_duplicates xs = unique_from [] xs"

text \<open>Sorting the keys, by insertion.\<close>

primrec insort_key :: "('k \<Rightarrow> 'k \<Rightarrow> bool) \<Rightarrow> 'k \<Rightarrow> 'k list \<Rightarrow> 'k list" where
  "insort_key le k [] = [k]"
| "insort_key le k (x # xs) = (if le k x then k # x # xs else x # insort_key le k xs)"

primrec sort_keys :: "('k \<Rightarrow> 'k \<Rightarrow> bool) \<Rightarrow> 'k list \<Rightarrow> 'k list" where
  "sort_keys le [] = []"
| "sort_keys le (k # ks) = insort_key le k (sort_keys le ks)"

text \<open>
  \<open>DATAFRAME.groupby("gameId")\<close>: one group per key, keys sorted, rows with a missing key
  dropped, the rows of a group in the order of the table.
\<close>

definition group_keys :: "'k dtype \<Rightarrow> ('k, 'n, 'i) player_game_row list \<Rightarrow> 'k list" where
  "group_keys dt df =
     sort_keys (key_le dt) (drop_duplicates (filter (\<lambda>k. \<not> isna dt k) (map gameId df)))"

definition groupby_gameId ::
  "'k dtype \<Rightarrow> ('k, 'n, 'i) player_game_row list
     \<Rightarrow> ('k \<times> ('k, 'n, 'i) player_game_row list) list" where
  "groupby_gameId dt df = map (\<lambda>k. (k, filter (\<lambda>r. gameId r = k) df)) (group_keys dt df)"

subsection \<open>Metric calculator\<close>

definition calculate_true_shooting :: "'n arith \<Rightarrow> ('k, 'n) row \<Rightarrow> 'n" where
  "calculate_true_shooting py r =
     (let fga = fieldGoalsAttempted r;
          fta = freeThrowsAttempted r;
          denom = mul_op py (int_lit py 2) (add_op py fga (mul_op py (float_lit py (44 / 100)) fta))
      in if gt_op py denom (int_lit py 0) then div_op py (points r) denom else float_lit py 0)"

definition calculate_efficiency :: "'n arith \<Rightarrow> ('k, 'n) row \<Rightarrow> 'n" where
  "calculate_efficiency py r =
     (let made = fieldGoalsMade r;
          attempted = fieldGoalsAttempted r;
          ftm = freeThrowsMade r;
          fta = freeThrowsAttempted r;
          rebounds = reboundsTotal r;
          assists = assists r;
          steals = steals r;
          blocks = blocks r;
          turnovers = turnovers r;
          points = points r
      in sub_op py
           (add_op py (add_op py (add_op py (add_op py points rebounds) assists) steals) blocks)
           (add_op py (add_op py (sub_op py attempted made) (sub_op py fta ftm)) turnovers))"

subsection \<open>Query layer\<close>

text \<open>\<open>DATAFRAME[DATAFRAME["gameId"].astype(str) == str(game_id)]\<close>; \<open>game_id\<close> is a \<open>str\<close>.\<close>

definition rows_of_game ::
  "'k dtype \<Rightarrow> ('k, 'n) row list \<Rightarrow> string \<Rightarrow> ('k, 'n) row list" where
  "rows_of_game dt DATAFRAME game_id =
     filter (\<lambda>r. astype_str dt (gameId r) = game_id) DATAFRAME"

definition team_display :: "string list \<Rightarrow> error + string" where
  "team_display teams =
     (if length teams > 1
      then (case item teams 0 of Inl e \<Rightarrow> Inl e
            | Inr a \<Rightarrow> (case item teams 1 of Inl e \<Rightarrow> Inl e
                        | Inr b \<Rightarrow> Inr (a @ '' vs. '' @ b)))
      else item teams 0)"

definition game_entry :: "'k dtype \<Rightarrow> 'k \<times> ('k, 'n) row list \<Rightarrow> error + game_info" where
  "game_entry dt g =
     (case g of (game_id, grp) \<Rightarrow>
        (case item (map game_date grp) 0 of Inl e \<Rightarrow> Inl e
         | Inr date \<Rightarrow>
             (let teams = drop_duplicates (map teamName grp)
              in case team_display teams of Inl e \<Rightarrow> Inl e
                 | Inr shown \<Rightarrow>
                     Inr \<lparr>gi_gameId = astype_str dt game_id, gi_game_date = date,
                          gi_teams = [shown]\<rparr>)))"

fun list_games_loop ::
  "'k dtype \<Rightarrow> ('k \<times> ('k, 'n) row list) list \<Rightarrow> game_info list \<Rightarrow> error + game_info list" where
  "list_games_loop dt [] games = Inr games"
| "list_games_loop dt (g # gs) games =
     (case game_entry dt g of Inl e \<Rightarrow> Inl e
      | Inr info \<Rightarrow> list_games_loop dt gs (games @ [info]))"

definition list_games :: "'k dtype \<Rightarrow> ('k, 'n) row list \<Rightarrow> error + game_info list" where
  "list_games dt DATAFRAME = list_games_loop dt (groupby_gameId dt DATAFRAME) []"

definition player_entry :: "'k dtype \<Rightarrow> 'n arith \<Rightarrow> ('k, 'n) row \<Rightarrow> 'n player_stats" where
  "player_entry dt py r =
     (let ts = calculate_true_shooting py r;
          eff = calculate_efficiency py r
      in \<lparr>ps_gameId = astype_str dt (gameId r),
          ps_teamId = teamId r,
          ps_teamName = teamName r,
          ps_teamTricode = teamTricode r,
          ps_personId = personId r,
          ps_personName = personName r,
          ps_position = (case position r of None \<Rightarrow> '''' | Some p \<Rightarrow> p),
          ps_minutes = minutes r,
          ps_points = int_op py (points r),
          ps_rebounds = int_op py (reboundsTotal r),
          ps_assists = int_op py (assists r),
          ps_steals = int_op py (steals r),
          ps_blocks = int_op py (blocks r),
          ps_turnovers = int_op py (turnovers r),
          ps_true_shooting = round_op py ts 3,
          ps_efficiency = round_op py eff 2,
          ps_plusMinus = int_op py (plusMinusPoints r)\<rparr>)"

definition game_players ::
  "'k dtype \<Rightarrow> 'n arith \<Rightarrow> ('k, 'n) row list \<Rightarrow> string \<Rightarrow> error + 'n player_stats list" where
  "game_players dt py DATAFRAME game_id =
     (let df_game = rows_of_game dt DATAFRAME game_id
      in if df_game = [] then Inl (HTTPException 404 ''Game not found'')
         else Inr (map (player_entry dt py) df_game))"

definition game_charts ::
  "'k dtype \<Rightarrow> 'n arith \<Rightarrow> ('k, 'n) row list \<Rightarrow> string \<Rightarrow> error + 'n chart_data" where
  "game_charts dt py DATAFRAME game_id =
     (let df_game = rows_of_game dt DATAFRAME game_id
      in if df_game = [] then Inl (HTTPException 404 ''Game not found'')
         else Inr \<lparr>labels = map personName df_game,
                   datasets =
                     [(''points'', map (\<lambda>r. float_op py (points r)) df_game),
                      (''true_shooting'',
                         map (\<lambda>r. round_op py (calculate_true_shooting py r) 3) df_game),
                      (''momentum'', map (\<lambda>r. float_op py (plusMinusPoints r)) df_game)]\<rparr>)"

subsection \<open>Dataset loader\<close>

text \<open>
  A cell of the table that \<open>read_csv\<close> returns: a number, a text, or nothing. Which texts
  read as numbers is pandas's business: \<open>to_numeric\<close> takes the reader of numbers as
  \<open>parse\<close>. With \<open>errors="coerce"\<close>, a cell that is not a number becomes NaN, here \<open>None\<close>.
\<close>

datatype cell = Number rat | Text string | Blank

fun to_numeric :: "(string \<Rightarrow> rat option) \<Rightarrow> cell \<Rightarrow> rat option" where
  "to_numeric parse (Number x) = Some x"
| "to_numeric parse (Text s) = parse s"
| "to_numeric parse Blank = None"

fun fillna :: "rat \<Rightarrow> rat option \<Rightarrow> rat" where
  "fillna v None = v"
| "fillna v (Some x) = x"

definition coerce :: "(string \<Rightarrow> rat option) \<Rightarrow> cell \<Rightarrow> rat" where
  "coerce parse c = fillna 0 (to_numeric parse c)"

text \<open>\<open>.astype(int)\<close> on a column: a NaN anywhere raises, a number is truncated.\<close>

definition astype_int :: "rat option list \<Rightarrow> error + int list" where
  "astype_int col =
     (if None \<in> set col then Inl IntCastingNaNError else Inr (map (\<lambda>c. py_int (the c)) col))"

text \<open>The loop over \<open>numeric_cols\<close>, on one row.\<close>

definition coerce_numeric_cols ::
  "(string \<Rightarrow> rat option) \<Rightarrow> ('k, cell, 'i) player_game_row \<Rightarrow> ('k, rat, 'i) player_game_row" where
  "coerce_numeric_cols parse r =
     \<lparr>gameId = gameId r, game_date = game_date r, teamId = teamId r, teamName = teamName r,
      teamTricode = teamTricode r, personId = personId r, personName = personName r,
      position = position r, minutes = minutes r,
      fieldGoalsMade = coerce parse (fieldGoalsMade r),
      fieldGoalsAttempted = coerce parse (fieldGoalsAttempted r),
      threePointersMade = coerce parse (threePointersMade r),
      threePointersAttempted = coerce parse (threePointersAttempted r),
      freeThrowsMade = coerce parse (freeThrowsMade r),
      freeThrowsAttempted = coerce parse (freeThrowsAttempted r),
      reboundsOffensive = coerce parse (reboundsOffensive r),
      reboundsDefensive = coerce parse (reboundsDefensive r),
      reboundsTotal = coerce parse (reboundsTotal r),
      assists = coerce parse (assists r),
      steals = coerce parse (steals r),
      blocks = coerce parse (blocks r),
      turnovers = coerce parse (turnovers r),
      foulsPersonal = coerce parse (foulsPersonal r),
      points = coerce parse (points r),
      plusMinusPoints = coerce parse (plusMinusPoints r)\<rparr>"

definition set_ids :: "('k, 'n, 'i) player_game_row \<Rightarrow> 'j \<Rightarrow> 'j \<Rightarrow> ('k, 'n, 'j) player_game_row" where
  "set_ids r team_id person_id =
     \<lparr>gameId = gameId r, game_date = game_date r, teamId = team_id, teamName = teamName r,
      teamTricode = teamTricode r, personId = person_id, personName = personName r,
      position = position r, minutes = minutes r,
      fieldGoalsMade = fieldGoalsMade r,
      fieldGoalsAttempted = fieldGoalsAttempted r,
      threePointersMade = threePointersMade r,
      threePointersAttempted = threePointersAttempted r,
      freeThrowsMade = freeThrowsMade r,
      freeThrowsAttempted = freeThrowsAttempted r,
      reboundsOffensive = reboundsOffensive r,
      reboundsDefensive = reboundsDefensive r,
      reboundsTotal = reboundsTotal r,
      assists = assists r,
      steals = steals r,
      blocks = blocks r,
      turnovers = turnovers r,
      foulsPersonal = foulsPersonal r,
      points = points r,
      plusMinusPoints = plusMinusPoints r\<rparr>"

text \<open>
  \<open>_load_data\<close>, from the table \<open>read_csv\<close> returned: the numeric columns first, then
  \<open>teamId\<close>, then \<open>personId\<close>, each identifier column converted as a whole.
\<close>

definition load_data ::
  "(string \<Rightarrow> rat option) \<Rightarrow> ('k, cell, cell) player_game_row list \<Rightarrow> error + ('k, rat) row list" where
  "load_data parse csv =
     (let df = map (coerce_numeric_cols parse) csv
      in case astype_int (map (\<lambda>r. to_numeric parse (teamId r)) df) of
           Inl e \<Rightarrow> Inl e
         | Inr team_ids \<Rightarrow>
             (case astype_int (map (\<lambda>r. to_numeric parse (personId r)) df) of
                Inl e \<Rightarrow> Inl e
              | Inr person_ids \<Rightarrow>
                  Inr (map (\<lambda>(r, t, p). set_ids r t p) (zip df (zip team_ids person_ids)))))"

subsection \<open>Sample data\<close>

text \<open>A row with every stat at zero, from which the concrete rows used below are made.\<close>

definition sample_row :: "(int, rat) row" where
  "sample_row =
     \<lparr>gameId = 1, game_date = ''2024-04-21'', teamId = 10, teamName = ''Celtics'',
      teamTricode = ''BOS'', personId = 7, personName = ''Brown'', position = Some ''F'',
      minutes = ''30:00'',
      fieldGoalsMade = 0, fieldGoalsAttempted = 0, threePointersMade = 0,
      threePointersAttempted = 0, freeThrowsMade = 0, freeThrowsAttempted = 0,
      reboundsOffensive = 0, reboundsDefensive = 0, reboundsTotal = 0, assists = 0, steals = 0,
      blocks = 0, turnovers = 0, foulsPersonal = 0, points = 0, plusMinusPoints = 0\<rparr>"

text \<open>A table of three rows: two players of game 1, on two teams, and one player of game 2.\<close>

definition sample_df :: "(int, rat) row list" where
  "sample_df =
     [sample_row\<lparr>points := 30, fieldGoalsAttempted := 20, freeThrowsAttempted := 5,
        plusMinusPoints := 7\<rparr>,
      sample_row\<lparr>teamId := 20, teamName := ''Heat'', teamTricode := ''MIA'', personId := 8,
        personName := ''Butler'', points := 12, fieldGoalsAttempted := 10,
        plusMinusPoints := - 7\<rparr>,
      sample_row\<lparr>gameId := 2, game_date := ''2024-04-24'', personName := ''Tatum'',
        personId := 9\<rparr>]"

text \<open>
  A table whose \<open>gameId\<close> column is text: two rows of game \<open>G1\<close>, one of game \<open>G2\<close>, and
  one row whose \<open>gameId\<close> cell is missing.
\<close>

definition sample_text_row :: "(string option, rat) row" where
  "sample_text_row =
     \<lparr>gameId = Some ''G1'', game_date = ''2024-04-21'', teamId = 10, teamName = ''Celtics'',
      teamTricode = ''BOS'', personId = 7, personName = ''Brown'', position = Some ''F'',
      minutes = ''30:00'',
      fieldGoalsMade = 0, fieldGoalsAttempted = 0, threePointersMade = 0,
      threePointersAttempted = 0, freeThrowsMade = 0, freeThrowsAttempted = 0,
      reboundsOffensive = 0, reboundsDefensive = 0, reboundsTotal = 0, assists = 0, steals = 0,
      blocks = 0, turnovers = 0, foulsPersonal = 0, points = 0, plusMinusPoints = 0\<rparr>"

definition sample_text_df :: "(string option, rat) row list" where
  "sample_text_df =
     [sample_text_row,
      sample_text_row\<lparr>gameId := Some ''G2'', game_date := ''2024-04-24''\<rparr>,
      sample_text_row\<lparr>gameId := None\<rparr>,
      sample_text_row\<lparr>teamName := ''Heat'', personName := ''Butler''\<rparr>]"

text \<open>
  A raw table of one row, and a reader of numbers for it: the text \<open>7\<close> reads as 7 and no
  other text of the sample reads as a number. The points cell is text, the assists cell is
  empty, and the player identifier is the text \<open>7\<close>.
\<close>

definition sample_parse :: "string \<Rightarrow> rat option" where
  "sample_parse s = (if s = ''7'' then Some 7 else None)"

definition sample_csv_row :: "(int, cell, cell) player_game_row" where
  "sample_csv_row =
     \<lparr>gameId = 1, game_date = ''2024-04-21'', teamId = Number 10, teamName = ''Celtics'',
      teamTricode = ''BOS'', personId = Text ''7'', personName = ''Brown'', position = Some ''F'',
      minutes = ''30:00'',
      fieldGoalsMade = Number 8, fieldGoalsAttempted = Number 20, threePointersMade = Number 0,
      threePointersAttempted = Number 0, freeThrowsMade = Number 0,
      freeThrowsAttempted = Number 5, reboundsOffensive = Number 0,
      reboundsDefensive = Number 0, reboundsTotal = Number 0, assists = Blank,
      steals = Number 0, blocks = Number 0, turnovers = Number 0, foulsPersonal = Number 0,
      points = Text ''n/a'', plusMinusPoints = Number (- 3)\<rparr>"

section \<open>Metric calculator\<close>





text \<open>
  C2. For every row, the efficiency rating is
  \<open>(points + totalRebounds + assists + steals + blocks)
     - ((fieldGoalsAttempted - fieldGoalsMade) + (freeThrowsAttempted - freeThrowsMade) + turnovers)\<close>;
  the row of the example yields 24; nothing is clamped: five missed shots and two turnovers
  give \<open>-7\<close>.
\<close>

theorem efficiency_formula:
  "calculate_efficiency exact r =
     (points r + reboundsTotal r + assists r + steals r + blocks r)
       - ((fieldGoalsAttempted r - fieldGoalsMade r)
          + (freeThrowsAttempted r - freeThrowsMade r) + turnovers r)
   \<and> (points r = 20 \<and> reboundsTotal r = 10 \<and> assists r = 5 \<and> steals r = 2 \<and> blocks r = 1
        \<and> fieldGoalsMade r = 8 \<and> fieldGoalsAttempted r = 18 \<and> freeThrowsMade r = 4
        \<and> freeThrowsAttempted r = 5 \<and> turnovers r = 3 \<longrightarrow> calculate_efficiency exact r = 24)
   \<and> calculate_efficiency exact (sample_row\<lparr>fieldGoalsAttempted := 5, turnovers := 2\<rparr>) = - 7"
  by (simp add: calculate_efficiency_def exact_def Let_def sample_row_def)

text \<open>At the row of the example.\<close>

theorem efficiency_formula_witness:
  "calculate_efficiency exact
     (sample_row\<lparr>points := 20, reboundsTotal := 10, assists := 5, steals := 2, blocks := 1,
        fieldGoalsMade := 8, fieldGoalsAttempted := 18, freeThrowsMade := 4,
        freeThrowsAttempted := 5, turnovers := 3\<rparr>) = 24"
  using efficiency_formula
          [of "sample_row\<lparr>points := 20, reboundsTotal := 10, assists := 5, steals := 2, blocks := 1,
        fieldGoalsMade := 8, fieldGoalsAttempted := 18, freeThrowsMade := 4,
        freeThrowsAttempted := 5, turnovers := 3\<rparr>"]
  by simp




section \<open>Query layer: players and charts of a game\<close>

text \<open>
  The rows of a game, and what the two queries return with and without them. The theorems
  of this section hold for every kind \<open>dt\<close> of the \<open>gameId\<close> column and for every arithmetic
  \<open>py\<close>: a rounded value is whatever \<open>round\<close> returns on whatever the metric function
  returns.
\<close>

lemma rows_of_game_empty_iff:
  "rows_of_game dt df g = [] \<longleftrightarrow> (\<forall>r\<in>set df. astype_str dt (gameId r) \<noteq> g)"
  by (simp add: rows_of_game_def filter_empty_conv)

lemma game_players_Inr:
  "rows_of_game dt df g \<noteq> [] \<Longrightarrow>
   game_players dt py df g = Inr (map (player_entry dt py) (rows_of_game dt df g))"
  by (simp add: game_players_def Let_def)

lemma game_players_Inl:
  "rows_of_game dt df g = [] \<Longrightarrow> game_players dt py df g = Inl not_found"
  by (simp add: game_players_def Let_def not_found_def)

lemma game_charts_Inr:
  "rows_of_game dt df g \<noteq> [] \<Longrightarrow>
   game_charts dt py df g =
     Inr \<lparr>labels = map personName (rows_of_game dt df g),
          datasets =
            [(''points'', map (\<lambda>r. float_op py (points r)) (rows_of_game dt df g)),
             (''true_shooting'',
                map (\<lambda>r. round_op py (calculate_true_shooting py r) 3) (rows_of_game dt df g)),
             (''momentum'', map (\<lambda>r. float_op py (plusMinusPoints r)) (rows_of_game dt df g))]\<rparr>"
  by (simp add: game_charts_def Let_def)

lemma game_charts_Inl:
  "rows_of_game dt df g = [] \<Longrightarrow> game_charts dt py df g = Inl not_found"
  by (simp add: game_charts_def Let_def not_found_def)

lemma player_entry_fields:
  "ps_gameId (player_entry dt py r) = astype_str dt (gameId r)"
  "ps_personName (player_entry dt py r) = personName r"
  "ps_true_shooting (player_entry dt py r) = round_op py (calculate_true_shooting py r) 3"
  "ps_efficiency (player_entry dt py r) = round_op py (calculate_efficiency py r) 2"
  by (simp_all add: player_entry_def Let_def)

text \<open>
  C3. For every game identifier \<open>g\<close>, \<open>game_players\<close> and \<open>game_charts\<close> each fail with
  Not-Found (HTTP 404) if and only if no row of the table has a \<open>gameId\<close> whose string form
  is \<open>g\<close>. The failure is the whole result, an \<open>Inl\<close> without any list or chart, and
  Not-Found is the only failure of either query.
\<close>

theorem not_found_iff_no_row:
  "(game_players dt py df g = Inl not_found \<longleftrightarrow> (\<forall>r\<in>set df. astype_str dt (gameId r) \<noteq> g))
   \<and> (game_charts dt py df g = Inl not_found \<longleftrightarrow> (\<forall>r\<in>set df. astype_str dt (gameId r) \<noteq> g))
   \<and> (\<forall>e. game_players dt py df g = Inl e \<longrightarrow> e = not_found)
   \<and> (\<forall>e. game_charts dt py df g = Inl e \<longrightarrow> e = not_found)"
proof (cases "rows_of_game dt df g = []")
  case True
  then show ?thesis
    using game_players_Inl [OF True, of py] game_charts_Inl [OF True, of py]
    by (simp add: rows_of_game_empty_iff)
next
  case False
  then show ?thesis
    using game_players_Inr [OF False, of py] game_charts_Inr [OF False, of py]
    by (simp add: rows_of_game_empty_iff)
qed

text \<open>
  Game 3 is not in the sample table, game 1 is.
\<close>

theorem not_found_iff_no_row_witness:
  "game_players int64 exact sample_df ''3'' = Inl not_found
   \<and> game_charts int64 exact sample_df ''3'' = Inl not_found
   \<and> game_players int64 exact sample_df ''1'' \<noteq> Inl not_found
   \<and> game_charts int64 exact sample_df ''1'' \<noteq> Inl not_found"
proof -
  have absent: "\<forall>r\<in>set sample_df. astype_str int64 (gameId r) \<noteq> ''3''"
    by code_simp
  have present: "\<not> (\<forall>r\<in>set sample_df. astype_str int64 (gameId r) \<noteq> ''1'')"
    by code_simp
  show ?thesis
    using not_found_iff_no_row [of int64 exact sample_df "''3''"]
      not_found_iff_no_row [of int64 exact sample_df "''1''"] absent present
    by blast
qed

text \<open>
  C4. For every \<open>gameId\<close> present in the table, \<open>game_players\<close> returns a non-empty list
  whose every entry has the queried id as \<open>gameId\<close>; the list has one entry per row of the
  game, in the order of the rows, and the entry of a row carries \<open>round(ts, 3)\<close> and
  \<open>round(eff, 2)\<close>, for \<open>ts\<close> the True Shooting and \<open>eff\<close> the efficiency that the metric
  functions return on that row.
\<close>

theorem list_players_entries:
  assumes "\<exists>r\<in>set df. astype_str dt (gameId r) = g"
    and "rows = filter (\<lambda>r. astype_str dt (gameId r) = g) df"
  shows "\<exists>ps. game_players dt py df g = Inr ps \<and> ps \<noteq> [] \<and> (\<forall>p\<in>set ps. ps_gameId p = g)
           \<and> length ps = length rows
           \<and> (\<forall>i<length rows.
                ps_true_shooting (ps ! i) = round_op py (calculate_true_shooting py (rows ! i)) 3
                \<and> ps_efficiency (ps ! i) = round_op py (calculate_efficiency py (rows ! i)) 2)"
proof -
  have rows: "rows = rows_of_game dt df g"
    using assms(2) by (simp add: rows_of_game_def)
  have ne: "rows_of_game dt df g \<noteq> []"
    using assms(1) by (auto simp add: rows_of_game_empty_iff)
  have ids: "\<forall>r\<in>set rows. astype_str dt (gameId r) = g"
    using assms(2) by simp
  show ?thesis
    using game_players_Inr [OF ne, of py] ne ids
    by (simp add: rows player_entry_fields)
qed

text \<open>
  Game 1 of the sample table, in the arithmetic without rounding: 30 points on 20 and 5
  attempts give \<open>0.676\<close>, 12 points on 10 attempts give \<open>0.6\<close>.
\<close>

theorem list_players_entries_witness:
  "\<exists>ps. game_players int64 exact sample_df ''1'' = Inr ps \<and> ps \<noteq> [] \<and> length ps = 2
         \<and> map ps_gameId ps = [''1'', ''1'']
         \<and> map ps_true_shooting ps = [676 / 1000, 6 / 10]
         \<and> map ps_efficiency ps = [5, 2]"
proof -
  have present: "\<exists>r\<in>set sample_df. astype_str int64 (gameId r) = ''1''"
    by code_simp
  have rows: "[sample_df ! 0, sample_df ! 1]
                = filter (\<lambda>r. astype_str int64 (gameId r) = ''1'') sample_df"
    by code_simp
  have ts: "map (\<lambda>r. round_op exact (calculate_true_shooting exact r) 3)
              [sample_df ! 0, sample_df ! 1] = [676 / 1000, 6 / 10]"
    by code_simp
  have eff: "map (\<lambda>r. round_op exact (calculate_efficiency exact r) 2)
              [sample_df ! 0, sample_df ! 1] = [5, 2]"
    by code_simp
  obtain ps where ps: "game_players int64 exact sample_df ''1'' = Inr ps" "ps \<noteq> []"
      "\<forall>p\<in>set ps. ps_gameId p = ''1''" "length ps = length [sample_df ! 0, sample_df ! 1]"
      "\<forall>i<length [sample_df ! 0, sample_df ! 1].
         ps_true_shooting (ps ! i)
           = round_op exact (calculate_true_shooting exact ([sample_df ! 0, sample_df ! 1] ! i)) 3
         \<and> ps_efficiency (ps ! i)
           = round_op exact (calculate_efficiency exact ([sample_df ! 0, sample_df ! 1] ! i)) 2"
    using list_players_entries [OF present rows, of exact] by blast
  have at0: "ps_true_shooting (ps ! 0) = 676 / 1000 \<and> ps_efficiency (ps ! 0) = 5"
    using ps(5) [THEN spec, of 0] ts eff by simp
  have at1: "ps_true_shooting (ps ! 1) = 6 / 10 \<and> ps_efficiency (ps ! 1) = 2"
    using ps(5) [THEN spec, of 1] ts eff by simp
  have len: "length ps = 2"
    using ps(4) by simp
  then obtain p q where pq: "ps = [p, q]"
    by (cases ps; cases "tl ps") auto
  show ?thesis
    using ps(1,3) at0 at1 unfolding pq by simp
qed

text \<open>
  C5. For every game with at least one row, \<open>game_charts\<close> returns labels and the three
  datasets \<open>points\<close>, \<open>true_shooting\<close> and \<open>momentum\<close>, each as long as the list of the game's
  rows and aligned with it index by index, in the order of the table: the player's name,
  \<open>float(points)\<close>, \<open>round(ts, 3)\<close> for \<open>ts\<close> the True Shooting that the metric function
  returns on the row, and \<open>float(plusMinusPoints)\<close>.
\<close>

theorem chart_sequences_aligned:
  assumes "rows = filter (\<lambda>r. astype_str dt (gameId r) = g) df"
    and "rows \<noteq> []"
  shows "\<exists>cd pts ts mom.
           game_charts dt py df g = Inr cd
           \<and> map fst (datasets cd) = [''points'', ''true_shooting'', ''momentum'']
           \<and> map_of (datasets cd) ''points'' = Some pts
           \<and> map_of (datasets cd) ''true_shooting'' = Some ts
           \<and> map_of (datasets cd) ''momentum'' = Some mom
           \<and> length (labels cd) = length rows \<and> length pts = length rows
           \<and> length ts = length rows \<and> length mom = length rows
           \<and> (\<forall>i<length rows.
                labels cd ! i = personName (rows ! i)
                \<and> pts ! i = float_op py (points (rows ! i))
                \<and> ts ! i = round_op py (calculate_true_shooting py (rows ! i)) 3
                \<and> mom ! i = float_op py (plusMinusPoints (rows ! i)))"
proof -
  have rows: "rows = rows_of_game dt df g"
    using assms(1) by (simp add: rows_of_game_def)
  have ne: "rows_of_game dt df g \<noteq> []"
    using assms(2) rows by simp
  show ?thesis
    using game_charts_Inr [OF ne, of py] by (simp add: rows)
qed

text \<open>Game 1 of the sample table, in the arithmetic without rounding.\<close>

theorem chart_sequences_aligned_witness:
  "\<exists>cd. game_charts int64 exact sample_df ''1'' = Inr cd
        \<and> labels cd = [''Brown'', ''Butler'']
        \<and> map_of (datasets cd) ''points'' = Some [30, 12]
        \<and> map_of (datasets cd) ''true_shooting'' = Some [676 / 1000, 6 / 10]
        \<and> map_of (datasets cd) ''momentum'' = Some [7, - 7]"
proof -
  have rows: "[sample_df ! 0, sample_df ! 1]
                = filter (\<lambda>r. astype_str int64 (gameId r) = ''1'') sample_df"
    by code_simp
  have ne: "[sample_df ! 0, sample_df ! 1] \<noteq> []"
    by simp
  have vals:
    "map personName [sample_df ! 0, sample_df ! 1] = [''Brown'', ''Butler'']"
    "map (\<lambda>r. float_op exact (points r)) [sample_df ! 0, sample_df ! 1] = [30, 12]"
    "map (\<lambda>r. round_op exact (calculate_true_shooting exact r) 3) [sample_df ! 0, sample_df ! 1]
       = [676 / 1000, 6 / 10]"
    "map (\<lambda>r. float_op exact (plusMinusPoints r)) [sample_df ! 0, sample_df ! 1] = [7, - 7]"
    by code_simp+
  obtain cd pts ts mom where cd: "game_charts int64 exact sample_df ''1'' = Inr cd"
      "map_of (datasets cd) ''points'' = Some pts"
      "map_of (datasets cd) ''true_shooting'' = Some ts"
      "map_of (datasets cd) ''momentum'' = Some mom"
      "length (labels cd) = length [sample_df ! 0, sample_df ! 1]"
      "length pts = length [sample_df ! 0, sample_df ! 1]"
      "length ts = length [sample_df ! 0, sample_df ! 1]"
      "length mom = length [sample_df ! 0, sample_df ! 1]"
      "\<forall>i<length [sample_df ! 0, sample_df ! 1].
          labels cd ! i = personName ([sample_df ! 0, sample_df ! 1] ! i)
          \<and> pts ! i = float_op exact (points ([sample_df ! 0, sample_df ! 1] ! i))
          \<and> ts ! i = round_op exact
               (calculate_true_shooting exact ([sample_df ! 0, sample_df ! 1] ! i)) 3
          \<and> mom ! i = float_op exact (plusMinusPoints ([sample_df ! 0, sample_df ! 1] ! i))"
    using chart_sequences_aligned [OF rows ne, of exact] by blast
  have two: "\<And>xs :: 'a list. length xs = length [sample_df ! 0, sample_df ! 1] \<Longrightarrow> xs = [xs ! 0, xs ! 1]"
    by (simp add: list_eq_iff_nth_eq less_Suc_eq)
  have at0: "labels cd ! 0 = ''Brown''" "pts ! 0 = 30" "ts ! 0 = 676 / 1000" "mom ! 0 = 7"
    using cd(9) [THEN spec, of 0] vals by simp_all
  have at1: "labels cd ! 1 = ''Butler''" "pts ! 1 = 12" "ts ! 1 = 6 / 10" "mom ! 1 = - 7"
    using cd(9) [THEN spec, of 1] vals by simp_all
  have "labels cd = [''Brown'', ''Butler'']"
    by (subst two [OF cd(5)]) (simp only: at0 at1)
  moreover have "pts = [30, 12]"
    by (subst two [OF cd(6)]) (simp only: at0 at1)
  moreover have "ts = [676 / 1000, 6 / 10]"
    by (subst two [OF cd(7)]) (simp only: at0 at1)
  moreover have "mom = [7, - 7]"
    by (subst two [OF cd(8)]) (simp only: at0 at1)
  ultimately show ?thesis
    using cd(1-4) by simp
qed

text \<open>
  C10. For every \<open>gameId\<close> present in the table and every index \<open>i\<close> into the game's rows,
  the \<open>true_shooting\<close> value at \<open>i\<close> in the result of \<open>game_charts\<close> is the \<open>true_shooting\<close>
  field of the \<open>i\<close>-th entry of \<open>game_players\<close> for the same \<open>gameId\<close>, both being
  \<open>round(ts, 3)\<close> for \<open>ts\<close> the True Shooting of the \<open>i\<close>-th row of the game, and the
  \<open>i\<close>-th label is that entry's \<open>personName\<close>.
\<close>

theorem charts_agree_with_players:
  assumes "\<exists>r\<in>set df. astype_str dt (gameId r) = g"
    and "rows = filter (\<lambda>r. astype_str dt (gameId r) = g) df"
  shows "\<exists>ps cd ts.
           game_players dt py df g = Inr ps \<and> game_charts dt py df g = Inr cd
           \<and> map_of (datasets cd) ''true_shooting'' = Some ts
           \<and> length ps = length rows \<and> length ts = length rows
           \<and> length (labels cd) = length rows
           \<and> (\<forall>i<length rows.
                ts ! i = ps_true_shooting (ps ! i)
                \<and> ts ! i = round_op py (calculate_true_shooting py (rows ! i)) 3
                \<and> labels cd ! i = ps_personName (ps ! i))"
proof -
  have rows: "rows = rows_of_game dt df g"
    using assms(2) by (simp add: rows_of_game_def)
  have ne: "rows_of_game dt df g \<noteq> []"
    using assms(1) by (auto simp add: rows_of_game_empty_iff)
  show ?thesis
    using game_players_Inr [OF ne, of py] game_charts_Inr [OF ne, of py]
    by (simp add: rows player_entry_fields)
qed

text \<open>Game 1 of the sample table.\<close>

theorem charts_agree_with_players_witness:
  "\<exists>ps cd ts. game_players int64 exact sample_df ''1'' = Inr ps
      \<and> game_charts int64 exact sample_df ''1'' = Inr cd
      \<and> map_of (datasets cd) ''true_shooting'' = Some ts
      \<and> length ps = 2 \<and> length ts = 2 \<and> length (labels cd) = 2
      \<and> ts ! 0 = ps_true_shooting (ps ! 0) \<and> ts ! 1 = ps_true_shooting (ps ! 1)
      \<and> labels cd ! 0 = ps_personName (ps ! 0) \<and> labels cd ! 1 = ps_personName (ps ! 1)"
proof -
  have present: "\<exists>r\<in>set sample_df. astype_str int64 (gameId r) = ''1''"
    by code_simp
  have rows: "[sample_df ! 0, sample_df ! 1]
                = filter (\<lambda>r. astype_str int64 (gameId r) = ''1'') sample_df"
    by code_simp
  obtain ps cd ts where h: "game_players int64 exact sample_df ''1'' = Inr ps"
      "game_charts int64 exact sample_df ''1'' = Inr cd"
      "map_of (datasets cd) ''true_shooting'' = Some ts"
      "length ps = length [sample_df ! 0, sample_df ! 1]"
      "length ts = length [sample_df ! 0, sample_df ! 1]"
      "length (labels cd) = length [sample_df ! 0, sample_df ! 1]"
      "\<forall>i<length [sample_df ! 0, sample_df ! 1].
          ts ! i = ps_true_shooting (ps ! i)
          \<and> ts ! i = round_op exact
               (calculate_true_shooting exact ([sample_df ! 0, sample_df ! 1] ! i)) 3
          \<and> labels cd ! i = ps_personName (ps ! i)"
    using charts_agree_with_players [OF present rows, of exact] by blast
  have at0: "ts ! 0 = ps_true_shooting (ps ! 0) \<and> labels cd ! 0 = ps_personName (ps ! 0)"
    using h(7) [THEN spec, of 0] by simp
  have at1: "ts ! 1 = ps_true_shooting (ps ! 1) \<and> labels cd ! 1 = ps_personName (ps ! 1)"
    using h(7) [THEN spec, of 1] by simp
  show ?thesis
    using h(1-6) at0 at1 by simp
qed

section \<open>Query layer: the list of games\<close>

subsection \<open>The string form of a game identifier\<close>

text \<open>
  \<open>str\<close> is injective on integers: the digits decode back to the number, and no digit is
  a minus sign.
\<close>

lemma of_char_digit_char: "d < 10 \<Longrightarrow> (of_char (digit_char d) :: nat) = 48 + d"
  by (simp add: digit_char_def)

lemma str_nat_decode:
  "foldl (\<lambda>a c. 10 * a + ((of_char c :: nat) - 48)) 0 (str_nat n) = n"
proof (induction n rule: str_nat.induct)
  case (1 n)
  show ?case
  proof (cases "n < 10")
    case True
    then show ?thesis
      by (subst str_nat.simps) (simp add: of_char_digit_char)
  next
    case False
    then have "foldl (\<lambda>a c. 10 * a + ((of_char c :: nat) - 48)) 0 (str_nat (n div 10)) = n div 10"
      using "1.IH" by simp
    with False show ?thesis
      by (subst str_nat.simps) (simp add: of_char_digit_char)
  qed
qed

lemma str_nat_inj: "str_nat m = str_nat n \<Longrightarrow> m = n"
proof -
  assume eq: "str_nat m = str_nat n"
  have "m = foldl (\<lambda>a c. 10 * a + ((of_char c :: nat) - 48)) 0 (str_nat m)"
    by (rule str_nat_decode [symmetric])
  also have "\<dots> = foldl (\<lambda>a c. 10 * a + ((of_char c :: nat) - 48)) 0 (str_nat n)"
    by (simp only: eq)
  also have "\<dots> = n"
    by (rule str_nat_decode)
  finally show "m = n" .
qed

lemma digit_char_not_minus: "d < 10 \<Longrightarrow> digit_char d \<noteq> CHR ''-''"
proof
  assume d: "d < 10" and eq: "digit_char d = CHR ''-''"
  have "(of_char (digit_char d) :: nat) = 45"
    by (simp add: eq)
  with d show False
    by (simp add: of_char_digit_char)
qed

lemma str_nat_no_minus: "CHR ''-'' \<notin> set (str_nat n)"
proof (induction n rule: str_nat.induct)
  case (1 n)
  show ?case
  proof (cases "n < 10")
    case True
    then show ?thesis
      using digit_char_not_minus [of n] by (subst str_nat.simps) auto
  next
    case False
    then show ?thesis
      using "1.IH" digit_char_not_minus [of "n mod 10"]
      by (subst str_nat.simps) auto
  qed
qed

lemma str_int_inj: "str_int i = str_int j \<Longrightarrow> i = j"
proof -
  assume eq: "str_int i = str_int j"
  consider "i < 0" "j < 0" | "i < 0" "0 \<le> j" | "0 \<le> i" "j < 0" | "0 \<le> i" "0 \<le> j"
    by linarith
  then show "i = j"
  proof cases
    case 1
    with eq have "str_nat (nat (- i)) = str_nat (nat (- j))"
      by (simp add: str_int_def)
    then have "nat (- i) = nat (- j)"
      by (rule str_nat_inj)
    with 1 show ?thesis by simp
  next
    case 2
    with eq have "CHR ''-'' # str_nat (nat (- i)) = str_nat (nat j)"
      by (simp add: str_int_def)
    then have "CHR ''-'' \<in> set (str_nat (nat j))"
      by (metis list.set_intros(1))
    then show ?thesis
      by (simp add: str_nat_no_minus)
  next
    case 3
    with eq have "str_nat (nat i) = CHR ''-'' # str_nat (nat (- j))"
      by (simp add: str_int_def)
    then have "CHR ''-'' \<in> set (str_nat (nat i))"
      by (metis list.set_intros(1))
    then show ?thesis
      by (simp add: str_nat_no_minus)
  next
    case 4
    with eq have "str_nat (nat i) = str_nat (nat j)"
      by (simp add: str_int_def)
    then have "nat i = nat j"
      by (rule str_nat_inj)
    with 4 show ?thesis by simp
  qed
qed

lemma str_object_inj_on:
  assumes "None \<notin> A"
  shows "inj_on str_object A"
proof (rule inj_onI)
  fix x y
  assume x: "x \<in> A" and y: "y \<in> A" and eq: "str_object x = str_object y"
  obtain s where s: "x = Some s"
    using assms x by (cases x) auto
  obtain t where t: "y = Some t"
    using assms y by (cases y) auto
  show "x = y"
    using eq by (simp add: s t)
qed

subsection \<open>Distinct values in order of first occurrence\<close>

lemma set_unique_from: "set (unique_from seen xs) = set xs - set seen"
  by (induction xs arbitrary: seen) auto

lemma distinct_unique_from: "distinct (unique_from seen xs)"
  by (induction xs arbitrary: seen) (auto simp add: set_unique_from)

lemma set_drop_duplicates: "set (drop_duplicates xs) = set xs"
  by (simp add: drop_duplicates_def set_unique_from)

lemma distinct_drop_duplicates: "distinct (drop_duplicates xs)"
  by (simp add: drop_duplicates_def distinct_unique_from)

lemma drop_duplicates_Cons: "drop_duplicates (x # xs) = x # unique_from [x] xs"
  by (simp add: drop_duplicates_def)

lemma drop_duplicates_not_Nil: "xs \<noteq> [] \<Longrightarrow> drop_duplicates xs \<noteq> []"
  by (cases xs) (simp_all add: drop_duplicates_Cons)

lemma distinct_singleton_set: "distinct ys \<Longrightarrow> set ys = {b} \<Longrightarrow> ys = [b]"
proof -
  assume d: "distinct ys" and s: "set ys = {b}"
  then have "length ys = 1"
    using distinct_card [OF d] by simp
  then obtain y where "ys = [y]"
    by (cases ys) auto
  with s show ?thesis by simp
qed

lemma drop_duplicates_one: "set xs = {a} \<Longrightarrow> drop_duplicates xs = [a]"
  using distinct_singleton_set [OF distinct_drop_duplicates, of xs a]
  by (simp add: set_drop_duplicates)

lemma drop_duplicates_two:
  assumes "xs = a # ys" and "set xs = {a, b}" and "a \<noteq> b"
  shows "drop_duplicates xs = [a, b]"
proof -
  have "set (unique_from [a] ys) = {b}"
    using assms by (auto simp add: set_unique_from)
  then have "unique_from [a] ys = [b]"
    by (rule distinct_singleton_set [OF distinct_unique_from])
  then show ?thesis
    by (simp add: assms(1) drop_duplicates_Cons)
qed

subsection \<open>The groups of groupby\<close>

lemma set_insort_key: "set (insort_key le k ks) = insert k (set ks)"
  by (induction ks) auto

lemma set_sort_keys: "set (sort_keys le ks) = set ks"
  by (induction ks) (auto simp add: set_insort_key)

lemma distinct_insort_key: "distinct (insort_key le k ks) \<longleftrightarrow> k \<notin> set ks \<and> distinct ks"
  by (induction ks) (auto simp add: set_insort_key)

lemma distinct_sort_keys: "distinct (sort_keys le ks) \<longleftrightarrow> distinct ks"
  by (induction ks) (auto simp add: distinct_insort_key set_sort_keys)

lemma set_group_keys: "set (group_keys dt df) = {k \<in> gameId ` set df. \<not> isna dt k}"
  by (auto simp add: group_keys_def set_sort_keys set_drop_duplicates)

lemma distinct_group_keys: "distinct (group_keys dt df)"
  by (simp add: group_keys_def distinct_sort_keys distinct_drop_duplicates)

lemma length_group_keys:
  "length (group_keys dt df) = card {k \<in> gameId ` set df. \<not> isna dt k}"
proof -
  have "card (set (group_keys dt df)) = length (group_keys dt df)"
    by (rule distinct_card [OF distinct_group_keys])
  then show ?thesis
    by (simp only: set_group_keys)
qed

lemma length_groupby_gameId: "length (groupby_gameId dt df) = length (group_keys dt df)"
  by (simp add: groupby_gameId_def)

lemma groupby_gameId_nth:
  assumes "i < length (group_keys dt df)"
  shows "groupby_gameId dt df ! i = (group_keys dt df ! i, filter (\<lambda>r. gameId r = group_keys dt df ! i) df)"
    and "filter (\<lambda>r. gameId r = group_keys dt df ! i) df \<noteq> []"
proof -
  show "groupby_gameId dt df ! i = (group_keys dt df ! i, filter (\<lambda>r. gameId r = group_keys dt df ! i) df)"
    using assms by (simp add: groupby_gameId_def)
  have "group_keys dt df ! i \<in> set (group_keys dt df)"
    using assms by simp
  then have "group_keys dt df ! i \<in> gameId ` set df"
    by (simp add: set_group_keys)
  then show "filter (\<lambda>r. gameId r = group_keys dt df ! i) df \<noteq> []"
    by (auto simp add: filter_empty_conv)
qed

lemma groupby_gameId_nonempty: "(k, grp) \<in> set (groupby_gameId dt df) \<Longrightarrow> grp \<noteq> []"
proof -
  assume "(k, grp) \<in> set (groupby_gameId dt df)"
  then obtain i where i: "i < length (groupby_gameId dt df)" "groupby_gameId dt df ! i = (k, grp)"
    by (auto simp add: in_set_conv_nth)
  then show ?thesis
    using groupby_gameId_nth [of i dt df] by (auto simp add: length_groupby_gameId)
qed

lemma hd_filter_in:
  "filter P xs \<noteq> [] \<Longrightarrow> hd (filter P xs) \<in> set xs \<and> P (hd (filter P xs))"
proof -
  assume ne: "filter P xs \<noteq> []"
  then have "hd (filter P xs) \<in> set (filter P xs)"
    by (rule hd_in_set)
  then show ?thesis
    by simp
qed

subsection \<open>One entry, and the loop over the groups\<close>

text \<open>
  No group is empty, so neither \<open>iloc[0]\<close> nor \<open>teams[0]\<close> raises and the loop runs to its end.
\<close>

lemma item_first: "xs \<noteq> [] \<Longrightarrow> item xs 0 = Inr (hd xs)"
  by (cases xs) (simp_all add: item_def)

lemma team_display_one: "team_display [a] = Inr a"
  by (simp add: team_display_def item_def)

lemma team_display_more: "team_display (a # b # rest) = Inr (a @ '' vs. '' @ b)"
  by (simp add: team_display_def item_def)

lemma team_display_Inr: "teams \<noteq> [] \<Longrightarrow> \<exists>shown. team_display teams = Inr shown"
proof (cases teams)
  case Nil
  assume "teams \<noteq> []"
  with Nil show ?thesis by simp
next
  case (Cons a rest)
  then show ?thesis
    by (cases rest) (simp_all add: team_display_one team_display_more)
qed

lemma shown_one:
  assumes "team_display (drop_duplicates xs) = Inr shown" and "set xs = {a}"
  shows "shown = a"
  using assms by (simp add: drop_duplicates_one team_display_one)

lemma shown_two:
  assumes "team_display (drop_duplicates xs) = Inr shown"
    and "xs \<noteq> []" and "hd xs = a" and "set xs = {a, b}" and "a \<noteq> b"
  shows "shown = a @ '' vs. '' @ b"
proof -
  obtain ys where "xs = a # ys"
    using assms(2,3) by (cases xs) auto
  then have "drop_duplicates xs = [a, b]"
    using assms(4,5) by (rule drop_duplicates_two)
  then show ?thesis
    using assms(1) by (simp add: team_display_more)
qed

lemma game_entry_Inr:
  assumes "grp \<noteq> []"
  shows "\<exists>shown. team_display (drop_duplicates (map teamName grp)) = Inr shown
           \<and> game_entry dt (k, grp) =
               Inr \<lparr>gi_gameId = astype_str dt k, gi_game_date = game_date (hd grp), gi_teams = [shown]\<rparr>"
proof -
  have "drop_duplicates (map teamName grp) \<noteq> []"
    using assms by (simp add: drop_duplicates_not_Nil)
  then obtain shown where shown: "team_display (drop_duplicates (map teamName grp)) = Inr shown"
    using team_display_Inr by blast
  have date: "item (map game_date grp) 0 = Inr (game_date (hd grp))"
    using assms item_first [of "map game_date grp"] by (simp add: hd_map)
  show ?thesis
    using shown date by (simp add: game_entry_def Let_def)
qed

lemma list_games_loop_Inr:
  "\<forall>g\<in>set gs. game_entry dt g = Inr (f g) \<Longrightarrow> list_games_loop dt gs games = Inr (games @ map f gs)"
  by (induction gs arbitrary: games) simp_all

lemma list_games_Inr:
  "list_games dt df = Inr (map (\<lambda>g. projr (game_entry dt g)) (groupby_gameId dt df))"
proof -
  have "\<forall>g\<in>set (groupby_gameId dt df). game_entry dt g = Inr (projr (game_entry dt g))"
  proof
    fix g
    assume g: "g \<in> set (groupby_gameId dt df)"
    obtain k grp where kg: "g = (k, grp)"
      by (cases g)
    have "(k, grp) \<in> set (groupby_gameId dt df)"
      using g by (simp only: kg)
    then have "grp \<noteq> []"
      by (rule groupby_gameId_nonempty)
    then obtain info where "game_entry dt (k, grp) = Inr info"
      using game_entry_Inr [of grp dt k] by blast
    then show "game_entry dt g = Inr (projr (game_entry dt g))"
      by (simp add: kg)
  qed
  then show ?thesis
    using list_games_loop_Inr [of "groupby_gameId dt df" dt "\<lambda>g. projr (game_entry dt g)" "[]"]
    by (simp add: list_games_def)
qed

lemma list_games_length: "length (projr (list_games dt df)) = length (group_keys dt df)"
  by (simp add: list_games_Inr length_groupby_gameId)

lemma list_games_nth:
  assumes "i < length (group_keys dt df)"
  shows "\<exists>shown.
           team_display (drop_duplicates
             (map teamName (filter (\<lambda>r. gameId r = group_keys dt df ! i) df))) = Inr shown
           \<and> projr (list_games dt df) ! i =
               \<lparr>gi_gameId = astype_str dt (group_keys dt df ! i),
                gi_game_date = game_date (hd (filter (\<lambda>r. gameId r = group_keys dt df ! i) df)),
                gi_teams = [shown]\<rparr>"
proof -
  obtain shown where shown:
    "team_display (drop_duplicates
       (map teamName (filter (\<lambda>r. gameId r = group_keys dt df ! i) df))) = Inr shown"
    "game_entry dt (group_keys dt df ! i, filter (\<lambda>r. gameId r = group_keys dt df ! i) df) =
       Inr \<lparr>gi_gameId = astype_str dt (group_keys dt df ! i),
            gi_game_date = game_date (hd (filter (\<lambda>r. gameId r = group_keys dt df ! i) df)),
            gi_teams = [shown]\<rparr>"
    using game_entry_Inr [OF groupby_gameId_nth(2) [OF assms]] by blast
  have "projr (list_games dt df) ! i = projr (game_entry dt (groupby_gameId dt df ! i))"
    using assms by (simp add: list_games_Inr length_groupby_gameId)
  then show ?thesis
    using shown by (simp add: groupby_gameId_nth(1) [OF assms])
qed

text \<open>
  C6. \<open>list_games\<close> returns one entry per group, in the order of the groups, and the
  \<open>teams\<close> field of an entry is a list holding one string, made from the team names of the
  group's rows: when the rows name exactly two distinct teams, it is \<open>"<TeamA> vs. <TeamB>"\<close>
  with \<open>TeamA\<close> the team of the group's first row and \<open>TeamB\<close> the other one; when they name
  one team only, it is that name alone.
\<close>

theorem list_games_teams:
  "\<exists>gs. list_games dt df = Inr gs \<and> length gs = length (groupby_gameId dt df)
     \<and> (\<forall>i k grp. i < length gs \<longrightarrow> groupby_gameId dt df ! i = (k, grp) \<longrightarrow>
            grp = filter (\<lambda>r. gameId r = k) df \<and> grp \<noteq> []
            \<and> gi_gameId (gs ! i) = astype_str dt k
            \<and> (\<forall>a. set (map teamName grp) = {a} \<longrightarrow> gi_teams (gs ! i) = [a])
            \<and> (\<forall>a b. a \<noteq> b \<longrightarrow> teamName (hd grp) = a \<longrightarrow> set (map teamName grp) = {a, b} \<longrightarrow>
                  gi_teams (gs ! i) = [a @ '' vs. '' @ b]))"
proof -
  let ?gs = "projr (list_games dt df)"
  have res: "list_games dt df = Inr ?gs"
    by (simp add: list_games_Inr)
  have len: "length ?gs = length (groupby_gameId dt df)"
    by (simp add: list_games_length length_groupby_gameId)
  have each: "grp = filter (\<lambda>r. gameId r = k) df \<and> grp \<noteq> []
            \<and> gi_gameId (?gs ! i) = astype_str dt k
            \<and> (\<forall>a. set (map teamName grp) = {a} \<longrightarrow> gi_teams (?gs ! i) = [a])
            \<and> (\<forall>a b. a \<noteq> b \<longrightarrow> teamName (hd grp) = a \<longrightarrow> set (map teamName grp) = {a, b} \<longrightarrow>
                  gi_teams (?gs ! i) = [a @ '' vs. '' @ b])"
    if i: "i < length ?gs" and g: "groupby_gameId dt df ! i = (k, grp)" for i k grp
  proof -
    have ik: "i < length (group_keys dt df)"
      using i by (simp add: list_games_length)
    have k: "k = group_keys dt df ! i"
      using g groupby_gameId_nth(1) [OF ik] by simp
    have grp: "grp = filter (\<lambda>r. gameId r = k) df"
      using g groupby_gameId_nth(1) [OF ik] by auto
    have ne: "grp \<noteq> []"
      using groupby_gameId_nth(2) [OF ik] grp k by simp
    obtain shown where shown:
      "team_display (drop_duplicates (map teamName grp)) = Inr shown"
      "?gs ! i = \<lparr>gi_gameId = astype_str dt k, gi_game_date = game_date (hd grp), gi_teams = [shown]\<rparr>"
      using list_games_nth [OF ik] grp k by auto
    have one: "gi_teams (?gs ! i) = [a]" if "set (map teamName grp) = {a}" for a
      using shown_one [OF shown(1) that] shown(2) by simp
    have two: "gi_teams (?gs ! i) = [a @ '' vs. '' @ b]"
      if "a \<noteq> b" "teamName (hd grp) = a" "set (map teamName grp) = {a, b}" for a b
    proof -
      have "map teamName grp \<noteq> []" and "hd (map teamName grp) = a"
        using ne that(2) by (simp_all add: hd_map)
      then have "shown = a @ '' vs. '' @ b"
        using shown_two [OF shown(1)] that(1,3) by blast
      then show ?thesis
        using shown(2) by simp
    qed
    show ?thesis
      using grp ne shown(2) one two by simp
  qed
  show ?thesis
    using res len each by blast
qed

text \<open>
  In the sample table game 1 has two teams and game 2 one.
\<close>

theorem list_games_teams_witness:
  "\<exists>gs. list_games int64 sample_df = Inr gs \<and> length gs = 2
     \<and> gi_gameId (gs ! 0) = ''1'' \<and> gi_teams (gs ! 0) = [''Celtics vs. Heat'']
     \<and> gi_gameId (gs ! 1) = ''2'' \<and> gi_teams (gs ! 1) = [''Celtics'']"
proof -
  have grps: "groupby_gameId int64 sample_df =
      [(1, [sample_df ! 0, sample_df ! 1]), (2, [sample_df ! 2])]"
    by code_simp
  have g0: "groupby_gameId int64 sample_df ! 0 = (1, [sample_df ! 0, sample_df ! 1])"
    by (simp add: grps)
  have g1: "groupby_gameId int64 sample_df ! 1 = (2, [sample_df ! 2])"
    by (simp add: grps)
  have two: "''Celtics'' \<noteq> ''Heat''"
    "teamName (hd [sample_df ! 0, sample_df ! 1]) = ''Celtics''"
    "set (map teamName [sample_df ! 0, sample_df ! 1]) = {''Celtics'', ''Heat''}"
    by (simp_all add: sample_df_def sample_row_def)
  have one: "set (map teamName [sample_df ! 2]) = {''Celtics''}"
    by (simp add: sample_df_def sample_row_def)
  have ids: "astype_str int64 1 = ''1''" "astype_str int64 2 = ''2''"
    by code_simp+
  obtain gs where gs: "list_games int64 sample_df = Inr gs"
      "length gs = length (groupby_gameId int64 sample_df)"
      "\<forall>i k grp. i < length gs \<longrightarrow> groupby_gameId int64 sample_df ! i = (k, grp) \<longrightarrow>
            grp = filter (\<lambda>r. gameId r = k) sample_df \<and> grp \<noteq> []
            \<and> gi_gameId (gs ! i) = astype_str int64 k
            \<and> (\<forall>a. set (map teamName grp) = {a} \<longrightarrow> gi_teams (gs ! i) = [a])
            \<and> (\<forall>a b. a \<noteq> b \<longrightarrow> teamName (hd grp) = a \<longrightarrow> set (map teamName grp) = {a, b} \<longrightarrow>
                  gi_teams (gs ! i) = [a @ '' vs. '' @ b])"
    using list_games_teams [of int64 sample_df] by blast
  have len: "length gs = 2"
    using gs(2) by (simp add: grps)
  have l0: "0 < length gs" and l1: "1 < length gs"
    using len by simp_all
  note c0 = gs(3) [rule_format, OF l0 g0]
  note c1 = gs(3) [rule_format, OF l1 g1]
  have id0: "gi_gameId (gs ! 0) = ''1''"
    using c0 [THEN conjunct2, THEN conjunct2, THEN conjunct1] by (simp only: ids)
  have id1: "gi_gameId (gs ! 1) = ''2''"
    using c1 [THEN conjunct2, THEN conjunct2, THEN conjunct1] by (simp only: ids)
  have t0: "gi_teams (gs ! 0) = [''Celtics'' @ '' vs. '' @ ''Heat'']"
    by (rule c0 [THEN conjunct2, THEN conjunct2, THEN conjunct2, THEN conjunct2,
          rule_format, OF two])
  have t1: "gi_teams (gs ! 1) = [''Celtics'']"
    by (rule c1 [THEN conjunct2, THEN conjunct2, THEN conjunct2, THEN conjunct1,
          rule_format, OF one])
  show ?thesis
    using gs(1) len id0 id1 t0 t1 by simp
qed

subsection \<open>One entry per game\<close>

lemma list_games_entries:
  "\<exists>gs ks. list_games dt df = Inr gs
     \<and> distinct ks \<and> set ks = {k \<in> gameId ` set df. \<not> isna dt k}
     \<and> map gi_gameId gs = map (astype_str dt) ks
     \<and> length gs = card {k \<in> gameId ` set df. \<not> isna dt k}
     \<and> (\<forall>i<length gs. \<exists>r\<in>set df. gameId r = ks ! i \<and> gi_game_date (gs ! i) = game_date r)"
proof -
  let ?gs = "projr (list_games dt df)" and ?ks = "group_keys dt df"
  have res: "list_games dt df = Inr ?gs"
    by (simp add: list_games_Inr)
  have len: "length ?gs = length ?ks"
    by (rule list_games_length)
  have entry: "gi_gameId (?gs ! i) = astype_str dt (?ks ! i)
        \<and> gi_game_date (?gs ! i) = game_date (hd (filter (\<lambda>r. gameId r = ?ks ! i) df))"
    if "i < length ?ks" for i
    using list_games_nth [OF that] by auto
  have ids: "map gi_gameId ?gs = map (astype_str dt) ?ks"
    using len entry by (simp add: list_eq_iff_nth_eq)
  have dates: "\<exists>r\<in>set df. gameId r = ?ks ! i \<and> gi_game_date (?gs ! i) = game_date r"
    if "i < length ?gs" for i
  proof -
    have ik: "i < length ?ks"
      using that len by simp
    have "hd (filter (\<lambda>r. gameId r = ?ks ! i) df) \<in> set df
          \<and> gameId (hd (filter (\<lambda>r. gameId r = ?ks ! i) df)) = ?ks ! i"
      using hd_filter_in [OF groupby_gameId_nth(2) [OF ik]] by simp
    then show ?thesis
      using entry [OF ik] by blast
  qed
  have "length ?gs = card {k \<in> gameId ` set df. \<not> isna dt k}"
    using len by (simp add: length_group_keys)
  then show ?thesis
    using res distinct_group_keys [of dt df] set_group_keys [of dt df] ids dates by blast
qed

lemma list_games_ids_distinct:
  assumes "inj_on (astype_str dt) {k \<in> gameId ` set df. \<not> isna dt k}"
  shows "\<exists>gs. list_games dt df = Inr gs
     \<and> length gs = card {k \<in> gameId ` set df. \<not> isna dt k}
     \<and> distinct (map gi_gameId gs)"
proof -
  obtain gs ks where h: "list_games dt df = Inr gs"
      "distinct ks" "set ks = {k \<in> gameId ` set df. \<not> isna dt k}"
      "map gi_gameId gs = map (astype_str dt) ks"
      "length gs = card {k \<in> gameId ` set df. \<not> isna dt k}"
    using list_games_entries [of dt df] by blast
  have "inj_on (astype_str dt) (set ks)"
    using assms by (simp only: h(3))
  then have "distinct (map (astype_str dt) ks)"
    using h(2) by (simp add: distinct_map)
  then have "distinct (map gi_gameId gs)"
    by (simp only: h(4))
  then show ?thesis
    using h(1) h(5) by blast
qed

lemma int64_keys: "{k \<in> gameId ` set df. \<not> isna int64 k} = gameId ` set df"
  by (simp add: int64_def)

lemma object_keys: "{k \<in> gameId ` set df. \<not> isna object k} = gameId ` set df - {None}"
  by (auto simp add: object_def)

lemma list_games_int64:
  "\<exists>gs. list_games int64 df = Inr gs \<and> length gs = card (gameId ` set df)
     \<and> distinct (map gi_gameId gs)"
proof -
  have "inj_on str_int (gameId ` set df)"
    by (rule inj_onI) (rule str_int_inj)
  then have "inj_on (astype_str int64) {k \<in> gameId ` set df. \<not> isna int64 k}"
    by (simp only: int64_keys) (simp add: int64_def)
  from list_games_ids_distinct [OF this] show ?thesis
    by (simp only: int64_keys)
qed

lemma list_games_object:
  "\<exists>gs. list_games object df = Inr gs \<and> length gs = card (gameId ` set df - {None})
     \<and> distinct (map gi_gameId gs)"
proof -
  have "inj_on str_object (gameId ` set df - {None})"
    by (rule str_object_inj_on) simp
  then have "inj_on (astype_str object) {k \<in> gameId ` set df. \<not> isna object k}"
    by (simp only: object_keys) (simp add: object_def)
  from list_games_ids_distinct [OF this] show ?thesis
    by (simp only: object_keys)
qed

text \<open>
  C7. \<open>list_games\<close> returns exactly one entry per distinct \<open>gameId\<close> of the table, with no
  duplicate entries. For a column of any kind, the entries carry, in order, the string forms
  of a duplicate-free list of all the identifiers of the table (a missing cell is no
  identifier), so their number is the number of distinct identifiers, and the date of each
  entry is the date of a row of its own game. For a column of integers and for a column of
  texts, the \<open>gameId\<close> strings of the entries are pairwise different.
\<close>

theorem list_games_one_entry_per_game:
  fixes dt :: "'k dtype" and df :: "('k, 'n) row list"
    and ints :: "(int, 'n) row list" and texts :: "(string option, 'n) row list"
  shows "(\<exists>gs ks. list_games dt df = Inr gs
       \<and> distinct ks \<and> set ks = {k \<in> gameId ` set df. \<not> isna dt k}
       \<and> map gi_gameId gs = map (astype_str dt) ks
       \<and> length gs = card {k \<in> gameId ` set df. \<not> isna dt k}
       \<and> (\<forall>i<length gs. \<exists>r\<in>set df. gameId r = ks ! i \<and> gi_game_date (gs ! i) = game_date r))
     \<and> (\<exists>gs. list_games int64 ints = Inr gs \<and> length gs = card (gameId ` set ints)
           \<and> distinct (map gi_gameId gs))
     \<and> (\<exists>gs. list_games object texts = Inr gs \<and> length gs = card (gameId ` set texts - {None})
           \<and> distinct (map gi_gameId gs))"
  using list_games_entries [of dt df] list_games_int64 [of ints] list_games_object [of texts]
  by (intro conjI)

text \<open>
  The sample table has three rows and two games. The sample table with text identifiers has
  four rows, one of them with no identifier, and two games.
\<close>

theorem list_games_one_entry_per_game_witness:
  "(\<exists>gs. list_games int64 sample_df = Inr gs \<and> length gs = 2
        \<and> distinct (map gi_gameId gs))
   \<and> (\<exists>gs. list_games object sample_text_df = Inr gs \<and> length gs = 2
        \<and> distinct (map gi_gameId gs))"
proof -
  note inst = list_games_one_entry_per_game [of int64 sample_df sample_df sample_text_df]
  have ids: "gameId ` set sample_df = {1, 2}"
    by (auto simp add: sample_df_def sample_row_def)
  have two_ids: "card {1, 2 :: int} = 2"
    by simp
  have first: "\<exists>gs. list_games int64 sample_df = Inr gs \<and> length gs = 2
        \<and> distinct (map gi_gameId gs)"
    using inst [THEN conjunct2, THEN conjunct1] by (simp only: ids two_ids)
  have keys: "gameId ` set sample_text_df - {None} = {Some ''G1'', Some ''G2''}"
    by (auto simp add: sample_text_df_def sample_text_row_def)
  have two_keys: "card {Some ''G1'', Some ''G2''} = 2"
    by simp
  have second: "\<exists>gs. list_games object sample_text_df = Inr gs \<and> length gs = 2
        \<and> distinct (map gi_gameId gs)"
    using inst [THEN conjunct2, THEN conjunct2] by (simp only: keys two_keys)
  show ?thesis
    using first second by (rule conjI)
qed

section \<open>Dataset loader\<close>

text \<open>
  The conversion of an identifier column succeeds exactly when no cell of it is a NaN, and
  \<open>_load_data\<close> returns the table row by row when both conversions succeed.
\<close>

lemma astype_int_Inr:
  "None \<notin> set col \<Longrightarrow> astype_int col = Inr (map (\<lambda>c. py_int (the c)) col)"
  by (simp add: astype_int_def)

lemma astype_int_Inl: "None \<in> set col \<Longrightarrow> astype_int col = Inl IntCastingNaNError"
  by (simp add: astype_int_def)

lemma map_zip3:
  "map f (zip (map g xs) (zip (map h xs) (map k xs))) = map (\<lambda>x. f (g x, h x, k x)) xs"
  by (induction xs) simp_all

lemma coerce_cases:
  "coerce parse c = (case to_numeric parse c of None \<Rightarrow> 0 | Some x \<Rightarrow> x)"
  by (cases "to_numeric parse c") (simp_all add: coerce_def)

lemma coerce_numeric_cols_ids:
  "teamId (coerce_numeric_cols parse r) = teamId r"
  "personId (coerce_numeric_cols parse r) = personId r"
  by (simp_all add: coerce_numeric_cols_def)

lemma load_data_Inr:
  assumes "\<forall>r\<in>set csv. to_numeric parse (teamId r) \<noteq> None \<and> to_numeric parse (personId r) \<noteq> None"
  shows "load_data parse csv =
           Inr (map (\<lambda>r. set_ids (coerce_numeric_cols parse r)
                            (py_int (the (to_numeric parse (teamId r))))
                            (py_int (the (to_numeric parse (personId r))))) csv)"
proof -
  have t: "None \<notin> set (map (\<lambda>r. to_numeric parse (teamId r)) (map (coerce_numeric_cols parse) csv))"
    using assms by (auto simp add: coerce_numeric_cols_ids)
  have p: "None \<notin> set (map (\<lambda>r. to_numeric parse (personId r)) (map (coerce_numeric_cols parse) csv))"
    using assms by (auto simp add: coerce_numeric_cols_ids)
  have "load_data parse csv =
      Inr (map (\<lambda>(r, t, p). set_ids r t p)
            (zip (map (coerce_numeric_cols parse) csv)
              (zip (map (\<lambda>r. py_int (the (to_numeric parse (teamId r)))) csv)
                   (map (\<lambda>r. py_int (the (to_numeric parse (personId r)))) csv))))"
    unfolding load_data_def Let_def astype_int_Inr [OF t] astype_int_Inr [OF p]
    by (simp add: coerce_numeric_cols_ids comp_def)
  then show ?thesis
    by (simp only: map_zip3 prod.case)
qed

lemma load_data_Inl:
  assumes "\<exists>r\<in>set csv. to_numeric parse (teamId r) = None \<or> to_numeric parse (personId r) = None"
  shows "load_data parse csv = Inl IntCastingNaNError"
proof (cases "None \<in> set (map (\<lambda>r. to_numeric parse (teamId r)) (map (coerce_numeric_cols parse) csv))")
  case True
  show ?thesis
    unfolding load_data_def Let_def astype_int_Inl [OF True] by simp
next
  case False
  have "to_numeric parse (teamId r) \<noteq> None" if r: "r \<in> set csv" for r
  proof
    assume "to_numeric parse (teamId r) = None"
    then have "None \<in> set (map (\<lambda>r. to_numeric parse (teamId r))
                           (map (coerce_numeric_cols parse) csv))"
      using r by (force simp add: coerce_numeric_cols_ids image_iff)
    with False show False
      by simp
  qed
  then have "\<exists>r\<in>set csv. to_numeric parse (personId r) = None"
    using assms by blast
  then have p: "None \<in> set (map (\<lambda>r. to_numeric parse (personId r)) (map (coerce_numeric_cols parse) csv))"
    by (force simp add: coerce_numeric_cols_ids image_iff)
  show ?thesis
    unfolding load_data_def Let_def astype_int_Inr [OF False] astype_int_Inl [OF p] by simp
qed

text \<open>
  C9 (as amended). At load time every cell of a numeric stat column that fails numeric
  coercion (not a number, or missing) is replaced by zero, and a cell that is a number keeps
  its value; no such cell makes the load fail. The team and player identifier cells that
  coerce to a number are converted to integers, truncated towards zero, and the load
  succeeds whenever every identifier cell coerces. The zero rule is not applied to the
  identifier columns.
\<close>

theorem load_data_coercion:
  assumes "\<forall>r\<in>set csv. to_numeric parse (teamId r) \<noteq> None \<and> to_numeric parse (personId r) \<noteq> None"
  shows "\<exists>df. load_data parse csv = Inr df \<and> length df = length csv
    \<and> (\<forall>i<length csv.
         fieldGoalsMade (df ! i)
           = (case to_numeric parse (fieldGoalsMade (csv ! i)) of None \<Rightarrow> 0 | Some x \<Rightarrow> x)
       \<and> fieldGoalsAttempted (df ! i)
           = (case to_numeric parse (fieldGoalsAttempted (csv ! i)) of None \<Rightarrow> 0 | Some x \<Rightarrow> x)
       \<and> threePointersMade (df ! i)
           = (case to_numeric parse (threePointersMade (csv ! i)) of None \<Rightarrow> 0 | Some x \<Rightarrow> x)
       \<and> threePointersAttempted (df ! i)
           = (case to_numeric parse (threePointersAttempted (csv ! i)) of None \<Rightarrow> 0 | Some x \<Rightarrow> x)
       \<and> freeThrowsMade (df ! i)
           = (case to_numeric parse (freeThrowsMade (csv ! i)) of None \<Rightarrow> 0 | Some x \<Rightarrow> x)
       \<and> freeThrowsAttempted (df ! i)
           = (case to_numeric parse (freeThrowsAttempted (csv ! i)) of None \<Rightarrow> 0 | Some x \<Rightarrow> x)
       \<and> reboundsOffensive (df ! i)
           = (case to_numeric parse (reboundsOffensive (csv ! i)) of None \<Rightarrow> 0 | Some x \<Rightarrow> x)
       \<and> reboundsDefensive (df ! i)
           = (case to_numeric parse (reboundsDefensive (csv ! i)) of None \<Rightarrow> 0 | Some x \<Rightarrow> x)
       \<and> reboundsTotal (df ! i)
           = (case to_numeric parse (reboundsTotal (csv ! i)) of None \<Rightarrow> 0 | Some x \<Rightarrow> x)
       \<and> assists (df ! i)
           = (case to_numeric parse (assists (csv ! i)) of None \<Rightarrow> 0 | Some x \<Rightarrow> x)
       \<and> steals (df ! i)
           = (case to_numeric parse (steals (csv ! i)) of None \<Rightarrow> 0 | Some x \<Rightarrow> x)
       \<and> blocks (df ! i)
           = (case to_numeric parse (blocks (csv ! i)) of None \<Rightarrow> 0 | Some x \<Rightarrow> x)
       \<and> turnovers (df ! i)
           = (case to_numeric parse (turnovers (csv ! i)) of None \<Rightarrow> 0 | Some x \<Rightarrow> x)
       \<and> foulsPersonal (df ! i)
           = (case to_numeric parse (foulsPersonal (csv ! i)) of None \<Rightarrow> 0 | Some x \<Rightarrow> x)
       \<and> points (df ! i)
           = (case to_numeric parse (points (csv ! i)) of None \<Rightarrow> 0 | Some x \<Rightarrow> x)
       \<and> plusMinusPoints (df ! i)
           = (case to_numeric parse (plusMinusPoints (csv ! i)) of None \<Rightarrow> 0 | Some x \<Rightarrow> x)
       \<and> (\<exists>t. to_numeric parse (teamId (csv ! i)) = Some t \<and> teamId (df ! i) = py_int t)
       \<and> (\<exists>p. to_numeric parse (personId (csv ! i)) = Some p \<and> personId (df ! i) = py_int p)
       \<and> gameId (df ! i) = gameId (csv ! i))"
proof -
  have ids: "(\<exists>t. to_numeric parse (teamId (csv ! i)) = Some t
                  \<and> py_int (the (to_numeric parse (teamId (csv ! i)))) = py_int t)
           \<and> (\<exists>p. to_numeric parse (personId (csv ! i)) = Some p
                  \<and> py_int (the (to_numeric parse (personId (csv ! i)))) = py_int p)"
    if "i < length csv" for i
  proof -
    have "csv ! i \<in> set csv"
      using that by simp
    then have "to_numeric parse (teamId (csv ! i)) \<noteq> None"
      and "to_numeric parse (personId (csv ! i)) \<noteq> None"
      using assms by blast+
    then show ?thesis
      by auto
  qed
  show ?thesis
    unfolding load_data_Inr [OF assms]
    using ids by (simp add: set_ids_def coerce_numeric_cols_def coerce_cases)
qed

text \<open>
  In the sample row the points cell is the text \<open>n/a\<close> and the assists cell is empty: both
  load as 0. The player identifier is the text \<open>7\<close> and loads as the integer 7.
\<close>

theorem load_data_coercion_witness:
  "\<exists>df. load_data sample_parse [sample_csv_row] = Inr df \<and> length df = 1
      \<and> points (df ! 0) = 0 \<and> assists (df ! 0) = 0 \<and> fieldGoalsAttempted (df ! 0) = 20
      \<and> teamId (df ! 0) = 10 \<and> personId (df ! 0) = 7"
proof -
  have ok: "\<forall>r\<in>set [sample_csv_row].
      to_numeric sample_parse (teamId r) \<noteq> None \<and> to_numeric sample_parse (personId r) \<noteq> None"
    by (simp add: sample_csv_row_def sample_parse_def)
  have cells:
    "to_numeric sample_parse (points ([sample_csv_row] ! 0)) = None"
    "to_numeric sample_parse (assists ([sample_csv_row] ! 0)) = None"
    "to_numeric sample_parse (fieldGoalsAttempted ([sample_csv_row] ! 0)) = Some 20"
    "to_numeric sample_parse (teamId ([sample_csv_row] ! 0)) = Some 10"
    "to_numeric sample_parse (personId ([sample_csv_row] ! 0)) = Some 7"
    by (simp_all add: sample_csv_row_def sample_parse_def)
  have ints: "py_int 10 = 10" "py_int 7 = 7"
    by (simp_all add: py_int_def)
  obtain df where df: "load_data sample_parse [sample_csv_row] = Inr df"
      "length df = length [sample_csv_row]"
      "points (df ! 0)
         = (case to_numeric sample_parse (points ([sample_csv_row] ! 0)) of None \<Rightarrow> 0 | Some x \<Rightarrow> x)"
      "assists (df ! 0)
         = (case to_numeric sample_parse (assists ([sample_csv_row] ! 0)) of None \<Rightarrow> 0 | Some x \<Rightarrow> x)"
      "fieldGoalsAttempted (df ! 0)
         = (case to_numeric sample_parse (fieldGoalsAttempted ([sample_csv_row] ! 0))
            of None \<Rightarrow> 0 | Some x \<Rightarrow> x)"
      "\<exists>t. to_numeric sample_parse (teamId ([sample_csv_row] ! 0)) = Some t
           \<and> teamId (df ! 0) = py_int t"
      "\<exists>p. to_numeric sample_parse (personId ([sample_csv_row] ! 0)) = Some p
           \<and> personId (df ! 0) = py_int p"
    using load_data_coercion [OF ok] by fastforce
  have "teamId (df ! 0) = 10" and "personId (df ! 0) = 7"
    using df(6,7) cells(4,5) ints by auto
  then show ?thesis
    using df(1-5) cells(1-3) by simp
qed

text \<open>
  The claim as first stated has the identifier columns follow the zero rule. The source
  fills the NaNs of the sixteen stat columns with zero (\<open>.fillna(0)\<close>) and not those of
  \<open>teamId\<close> and \<open>personId\<close>, which go to \<open>.astype(int)\<close> as they are: a missing team
  identifier, or a player identifier that is not a number, makes the load fail.
\<close>

theorem load_data_identifier_counterexample:
  "load_data sample_parse [sample_csv_row\<lparr>teamId := Blank\<rparr>] = Inl IntCastingNaNError
   \<and> load_data sample_parse [sample_csv_row\<lparr>personId := Text ''n/a''\<rparr>] = Inl IntCastingNaNError"
  by (simp add: load_data_def astype_int_def coerce_numeric_cols_def sample_csv_row_def
      sample_parse_def)

end
